theory Spec2Isabelle
  imports Complex_Main "HOL-Library.Word"
begin

section \<open>Values shared by the three pipeline stages\<close>

text \<open>
  The service of \<^verbatim>\<open>tools.py\<close> and \<^verbatim>\<open>currency_api.py\<close> downloads a zip archive,
  extracts one member, reads it into a data frame and answers point lookups.
  Every \<^verbatim>\<open>raise\<close> of the source is a value of \<open>error\<close>; a function that may raise
  returns \<open>error + 'a\<close> with \<open>Inl\<close> for the exception. The three lookup failures are
  plain \<^verbatim>\<open>Exception\<close>s in the source, told apart by their message only; each message
  is a constructor here, carrying the strings the message interpolates.
  The \<^verbatim>\<open>logging\<close> calls write to the log file and influence no result; they are left out.
\<close>

type_synonym bytes = "8 word list"

datatype error =
    RequestException string
  | HTTPError int
  | BadZipFile
  | FileNotFoundError string
  | CurrencyNotAvailable string
  | DateNotAvailable string
  | DataNotAvailable string string
  | KeyError string
  | IndexError
  | TypeError

section \<open>ZipDownloader\<close>

record response =
  status_code :: int
  content :: bytes

text \<open>
  \<^verbatim>\<open>_make_request\<close> calls \<^verbatim>\<open>requests.get(self.url)\<close>, logs a \<^verbatim>\<open>RequestException\<close> and
  raises it again. The network call is the parameter \<open>requests_get\<close>.
\<close>

definition make_request :: "(string \<Rightarrow> error + response) \<Rightarrow> string \<Rightarrow> error + response" where
  "make_request requests_get url = requests_get url"

definition check_response :: "response \<Rightarrow> error + unit" where
  "check_response resp =
     (if status_code resp \<noteq> 200 then Inl (HTTPError (status_code resp)) else Inr ())"

definition get_file :: "(string \<Rightarrow> error + response) \<Rightarrow> string \<Rightarrow> error + bytes" where
  "get_file requests_get url =
     (case make_request requests_get url of
        Inl e \<Rightarrow> Inl e
      | Inr resp \<Rightarrow>
          (case check_response resp of
             Inl e \<Rightarrow> Inl e
           | Inr _ \<Rightarrow> Inr (content resp)))"

section \<open>Unzipper\<close>

text \<open>
  An opened \<^verbatim>\<open>zipfile.ZipFile\<close> is the list \<^verbatim>\<open>infolist()\<close> of its entries in stored
  order, each with its \<^verbatim>\<open>filename\<close> and the bytes that \<^verbatim>\<open>zip_ref.open(info).read()\<close>
  yields. \<^verbatim>\<open>_extract_file\<close> is the \<^verbatim>\<open>for\<close> loop over that list, returning from inside
  the loop at the first entry whose name is \<^verbatim>\<open>==\<close> to the requested one.
\<close>

type_synonym zip_ref = "(string \<times> bytes) list"

fun extract_file :: "string \<Rightarrow> zip_ref \<Rightarrow> error + bytes" where
  "extract_file file_to_extract [] = Inl (FileNotFoundError file_to_extract)"
| "extract_file file_to_extract ((filename, file_contents) # infos) =
     (if filename = file_to_extract then Inr file_contents
      else extract_file file_to_extract infos)"

text \<open>
  \<^verbatim>\<open>get_data\<close> opens the archive (the library call \<open>ZipFile\<close>, which raises on bytes
  that are no zip archive) and extracts the member.
\<close>

definition get_data :: "(bytes \<Rightarrow> error + zip_ref) \<Rightarrow> string \<Rightarrow> bytes \<Rightarrow> error + bytes" where
  "get_data ZipFile file_to_extract zipped_data =
     (case ZipFile zipped_data of
        Inl e \<Rightarrow> Inl e
      | Inr zip_ref \<Rightarrow> extract_file file_to_extract zip_ref)"

section \<open>The data frame\<close>

text \<open>
  A cell of the frame is missing (\<open>NaN\<close>, what \<^verbatim>\<open>pd.isna\<close> recognises), a string (an
  entry of an \<^verbatim>\<open>object\<close> column, as in the frames of \<^verbatim>\<open>test_tools.py\<close>), a float
  (\<open>Num\<close>, an entry of a \<^verbatim>\<open>float64\<close> column, which is what \<^verbatim>\<open>pd.read_csv\<close> with its
  default arguments makes of a column whose fields are all numerals or empty), an
  integer (\<open>Int64\<close>, an entry of an \<^verbatim>\<open>int64\<close> column: every field an integer numeral,
  none empty) or a truth value (\<open>Boolean\<close>, an entry of a \<^verbatim>\<open>bool\<close> column).

  A frame is a rectangular labelled array: the ordered column labels and the rows in
  order, each row giving the cell under a label. Only labels listed in \<open>columns\<close> are
  ever read: the source checks membership in \<^verbatim>\<open>df.columns.values\<close> first, and
  \<^verbatim>\<open>df['Date']\<close> raises \<^verbatim>\<open>KeyError\<close> for a label that is no column.
\<close>

datatype cell = NaN | Str string | Num rat | Int64 int | Boolean bool

record frame =
  columns :: "string list"
  rows :: "(string \<Rightarrow> cell) list"

definition isna :: "cell \<Rightarrow> bool" where
  "isna v = (v = NaN)"

text \<open>\<^verbatim>\<open>df.dropna(axis=1, how='all', inplace=True)\<close>: a column stays iff some row has a
  value in it. No label is exempt.\<close>

definition dropna :: "frame \<Rightarrow> frame" where
  "dropna df = df\<lparr>columns := filter (\<lambda>c. list_ex (\<lambda>r. \<not> isna (r c)) (rows df)) (columns df)\<rparr>"

text \<open>\<^verbatim>\<open>df[label]\<close>: the column as the list of its cells.\<close>

definition getitem :: "frame \<Rightarrow> string \<Rightarrow> error + cell list" where
  "getitem df label =
     (if label \<in> set (columns df) then Inr (map (\<lambda>r. r label) (rows df))
      else Inl (KeyError label))"

text \<open>\<^verbatim>\<open>series == date\<close>: elementwise comparison with a string; only a string cell
  with the same text compares equal.\<close>

definition eq_str :: "cell list \<Rightarrow> string \<Rightarrow> bool list" where
  "eq_str series s = map (\<lambda>v. v = Str s) series"

text \<open>\<^verbatim>\<open>df.loc[mask, label].values\<close>: the cells of column \<open>label\<close> in the rows where the
  mask holds, in row order.\<close>

definition loc_values :: "frame \<Rightarrow> bool list \<Rightarrow> string \<Rightarrow> error + cell list" where
  "loc_values df row_mask label =
     (if label \<in> set (columns df)
      then Inr (map (\<lambda>(r, b). r label) (filter snd (zip (rows df) row_mask)))
      else Inl (KeyError label))"

section \<open>CurrencyExtractor\<close>

record lookup_result =
  result_currency :: string
  result_date :: string
  result_value :: cell

definition validate_inputs :: "string \<Rightarrow> string \<Rightarrow> frame \<Rightarrow> error + unit" where
  "validate_inputs date currency df =
     (if currency \<notin> set (columns df) \<or> currency = ''Date''
      then Inl (CurrencyNotAvailable currency)
      else
        (case getitem df ''Date'' of
           Inl e \<Rightarrow> Inl e
         | Inr dates \<Rightarrow>
             (if \<not> list_ex (\<lambda>b. b) (eq_str dates date)
              then Inl (DateNotAvailable date)
              else Inr ())))"

text \<open>The selection \<^verbatim>\<open>self.df.loc[self.df['Date'] == self.date, self.currency].values\<close>.\<close>

definition select_values :: "string \<Rightarrow> string \<Rightarrow> frame \<Rightarrow> error + cell list" where
  "select_values date currency df =
     (case getitem df ''Date'' of
        Inl e \<Rightarrow> Inl e
      | Inr dates \<Rightarrow> loc_values df (eq_str dates date) currency)"

text \<open>\<^verbatim>\<open>result[0]\<close> raises \<^verbatim>\<open>IndexError\<close> on an empty selection; the \<^verbatim>\<open>except\<close>
  clause logs the exception and raises it again.\<close>

definition get_value :: "string \<Rightarrow> string \<Rightarrow> frame \<Rightarrow> error + lookup_result" where
  "get_value date currency df =
     (case validate_inputs date currency df of
        Inl e \<Rightarrow> Inl e
      | Inr _ \<Rightarrow>
          (case select_values date currency df of
             Inl e \<Rightarrow> Inl e
           | Inr result \<Rightarrow>
               (case result of
                  [] \<Rightarrow> Inl IndexError
                | v # _ \<Rightarrow>
                    (if isna v then Inl (DataNotAvailable currency date)
                     else Inr \<lparr>result_currency = currency, result_date = date,
                               result_value = v\<rparr>))))"

section \<open>The HTTP endpoint\<close>

text \<open>
  \<^verbatim>\<open>jsonify\<close> of the result dictionary is a JSON object with the three keys. The value is
  \<^verbatim>\<open>result[0]\<close> as numpy hands it out: a \<^verbatim>\<open>str\<close> is written as a JSON string, a
  \<^verbatim>\<open>numpy.float64\<close> (a subclass of \<^verbatim>\<open>float\<close>) as a JSON number, and for a \<^verbatim>\<open>numpy.int64\<close>
  or \<^verbatim>\<open>numpy.bool_\<close>, which the encoder does not know, \<^verbatim>\<open>jsonify\<close> raises \<^verbatim>\<open>TypeError\<close>.

  The handler returns the body and the status, 200 where the source gives none. Both
  the lookup and \<^verbatim>\<open>jsonify(result)\<close> are inside the \<^verbatim>\<open>try\<close>, and \<^verbatim>\<open>except BaseException\<close>
  catches whatever either raises.
\<close>

datatype json = JString string | JNumber rat | JNaN | JObject "(string \<times> json) list"

fun json_of_cell :: "cell \<Rightarrow> error + json" where
  "json_of_cell (Str s) = Inr (JString s)"
| "json_of_cell (Num x) = Inr (JNumber x)"
| "json_of_cell NaN = Inr JNaN"
| "json_of_cell (Int64 n) = Inl TypeError"
| "json_of_cell (Boolean b) = Inl TypeError"

definition jsonify :: "lookup_result \<Rightarrow> error + json" where
  "jsonify r =
     (case json_of_cell (result_value r) of
        Inl e \<Rightarrow> Inl e
      | Inr v \<Rightarrow>
          Inr (JObject [(''currency'', JString (result_currency r)),
                        (''date'', JString (result_date r)),
                        (''value'', v)]))"

definition error_body :: json where
  "error_body =
     JObject [(''error'',
       JString ''Something wrong happend, please read the log for more information'')]"

definition endpoint :: "string \<Rightarrow> string \<Rightarrow> frame \<Rightarrow> json \<times> nat" where
  "endpoint date currency df =
     (case get_value date currency df of
        Inr result \<Rightarrow>
          (case jsonify result of
             Inr body \<Rightarrow> (body, 200)
           | Inl _ \<Rightarrow> (error_body, 404))
      | Inl _ \<Rightarrow> (error_body, 404))"

section \<open>The frame of the test suite\<close>

text \<open>A row written as its labelled cells; a label not listed has no value.\<close>

definition mk_row :: "(string \<times> cell) list \<Rightarrow> string \<Rightarrow> cell" where
  "mk_row kvs label = (case map_of kvs label of Some v \<Rightarrow> v | None \<Rightarrow> NaN)"

definition sample_dataframe :: frame where
  "sample_dataframe =
     \<lparr>columns = [''Date'', ''USD'', ''SEK''],
      rows = [mk_row [(''Date'', Str ''2023-11-20''), (''USD'', Str ''3.1415''), (''SEK'', Str ''6.6260'')],
              mk_row [(''Date'', Str ''2023-11-21''), (''USD'', Str ''1.4142''), (''SEK'', Str ''9.1093'')],
              mk_row [(''Date'', Str ''2023-11-22''), (''USD'', Str ''2.7182''), (''SEK'', NaN)]]\<rparr>"

text \<open>
  Two frames as \<^verbatim>\<open>pd.read_csv\<close> returns them. \<open>rates_frame\<close> is read from the two lines
  \<^verbatim>\<open>Date,USD\<close> and \<^verbatim>\<open>2023-11-20,1.50\<close>: the rate column holds numerals only and is read
  as \<^verbatim>\<open>float64\<close>, its one entry the number 1.5. \<open>blank_date_frame\<close> is read from
  \<^verbatim>\<open>Date,USD\<close> and \<^verbatim>\<open>,1.50\<close>: the date field of its only row is empty.
\<close>

definition rates_frame :: frame where
  "rates_frame =
     \<lparr>columns = [''Date'', ''USD''],
      rows = [mk_row [(''Date'', Str ''2023-11-20''), (''USD'', Num (3 / 2))]]\<rparr>"

definition blank_date_frame :: frame where
  "blank_date_frame =
     \<lparr>columns = [''Date'', ''USD''],
      rows = [mk_row [(''Date'', NaN), (''USD'', Num (3 / 2))]]\<rparr>"

text \<open>
  \<open>integer_frame\<close> is read from \<^verbatim>\<open>Date,JPY\<close> and \<^verbatim>\<open>2023-11-20,150\<close>: the rate column holds
  integer numerals only and is read as \<^verbatim>\<open>int64\<close>.
\<close>

definition integer_frame :: frame where
  "integer_frame =
     \<lparr>columns = [''Date'', ''JPY''],
      rows = [mk_row [(''Date'', Str ''2023-11-20''), (''JPY'', Int64 150)]]\<rparr>"

text \<open>
  \<open>duplicate_dates_frame\<close> has two rows for the same date, the first without a rate.
  \<open>trailing_comma_frame\<close> is read from lines that end in a comma, as those of the
  published rate file do: the last column has a generated label and no value in any row.
  \<open>sample_zip\<close> is the archive of the test suite, with one member.
\<close>

definition duplicate_dates_frame :: frame where
  "duplicate_dates_frame =
     \<lparr>columns = [''Date'', ''USD''],
      rows = [mk_row [(''Date'', Str ''2023-11-21''), (''USD'', Str ''1.4142'')],
              mk_row [(''Date'', Str ''2023-11-20''), (''USD'', NaN)],
              mk_row [(''Date'', Str ''2023-11-20''), (''USD'', Str ''3.1415'')]]\<rparr>"

definition trailing_comma_frame :: frame where
  "trailing_comma_frame =
     \<lparr>columns = [''Date'', ''USD'', ''Unnamed: 2''],
      rows = [mk_row [(''Date'', Str ''2023-11-20''), (''USD'', Num (3 / 2))],
              mk_row [(''Date'', Str ''2023-11-21''), (''USD'', NaN)]]\<rparr>"

definition sample_zip :: zip_ref where
  "sample_zip = [(''filename.txt'', map of_char ''navigare necesse est'')]"

section \<open>Facts about the frame operations\<close>

lemma zip_mask_filter:
  "map (\<lambda>(r, b). f r) (filter snd (zip rs (map P rs))) = map f (filter P rs)"
  by (induction rs) auto

lemma list_ex_eq_str:
  "list_ex (\<lambda>b. b) (eq_str (map (\<lambda>r. r label) rs) s) \<longleftrightarrow> (\<exists>r \<in> set rs. r label = Str s)"
  by (auto simp: eq_str_def list_ex_iff)

lemma select_values_eq:
  assumes "''Date'' \<in> set (columns df)" and "currency \<in> set (columns df)"
  shows "select_values date currency df =
           Inr (map (\<lambda>r. r currency) (filter (\<lambda>r. r ''Date'' = Str date) (rows df)))"
  using assms
  by (simp add: select_values_def getitem_def loc_values_def eq_str_def comp_def
      zip_mask_filter [where P = "\<lambda>r. r ''Date'' = Str date", simplified comp_def])

lemma validate_inputs_eq:
  "validate_inputs date currency df =
     (if currency \<notin> set (columns df) \<or> currency = ''Date'' then Inl (CurrencyNotAvailable currency)
      else if ''Date'' \<notin> set (columns df) then Inl (KeyError ''Date'')
      else if \<forall>r \<in> set (rows df). r ''Date'' \<noteq> Str date then Inl (DateNotAvailable date)
      else Inr ())"
  by (simp add: validate_inputs_def getitem_def list_ex_eq_str)

lemma filter_first:
  assumes "\<forall>p \<in> set pre. \<not> P p" and "P r"
  shows "filter P (pre @ r # post) = r # filter P post"
  using assms by (induction pre) auto

lemma find_Some_split:
  "find P xs = Some r \<Longrightarrow> \<exists>pre post. xs = pre @ r # post \<and> (\<forall>p \<in> set pre. \<not> P p) \<and> P r"
proof (induction xs)
  case Nil
  then show ?case by simp
next
  case (Cons x xs)
  show ?case
  proof (cases "P x")
    case True
    with Cons.prems have "x = r" by simp
    with True have "x # xs = [] @ r # xs \<and> (\<forall>p \<in> set []. \<not> P p) \<and> P r" by simp
    then show ?thesis by blast
  next
    case False
    with Cons.prems have "find P xs = Some r" by simp
    from Cons.IH [OF this] obtain pre post
      where "xs = pre @ r # post" "\<forall>p \<in> set pre. \<not> P p" "P r" by blast
    with False have "x # xs = (x # pre) @ r # post \<and> (\<forall>p \<in> set (x # pre). \<not> P p) \<and> P r"
      by simp
    then show ?thesis by blast
  qed
qed

section \<open>Facts about the lookup\<close>

lemma get_value_invalid_currency:
  "currency \<notin> set (columns df) \<or> currency = ''Date'' \<Longrightarrow>
   get_value date currency df = Inl (CurrencyNotAvailable currency)"
  by (simp add: get_value_def validate_inputs_eq)

lemma get_value_absent_date:
  assumes "currency \<in> set (columns df)" "currency \<noteq> ''Date''" "''Date'' \<in> set (columns df)"
    and "\<forall>r \<in> set (rows df). r ''Date'' \<noteq> Str date"
  shows "get_value date currency df = Inl (DateNotAvailable date)"
  using assms by (simp add: get_value_def validate_inputs_eq)

lemma get_value_first:
  assumes "currency \<in> set (columns df)" "currency \<noteq> ''Date''" "''Date'' \<in> set (columns df)"
    and "rows df = pre @ r # post"
    and "\<forall>p \<in> set pre. p ''Date'' \<noteq> Str date" and "r ''Date'' = Str date"
  shows "get_value date currency df =
           (if r currency = NaN then Inl (DataNotAvailable currency date)
            else Inr \<lparr>result_currency = currency, result_date = date, result_value = r currency\<rparr>)"
proof -
  have v: "validate_inputs date currency df = Inr ()"
    using assms by (auto simp: validate_inputs_eq)
  have "filter (\<lambda>r. r ''Date'' = Str date) (rows df) = r # filter (\<lambda>r. r ''Date'' = Str date) post"
    using assms(4-6) by (simp add: filter_first)
  then have s: "select_values date currency df =
      Inr (r currency # map (\<lambda>r. r currency) (filter (\<lambda>r. r ''Date'' = Str date) post))"
    using assms(1,3) by (simp add: select_values_eq)
  show ?thesis by (simp add: get_value_def v s isna_def)
qed

lemma get_value_find:
  assumes "currency \<in> set (columns df)" "currency \<noteq> ''Date''" "''Date'' \<in> set (columns df)"
  shows "get_value date currency df =
           (case find (\<lambda>r. r ''Date'' = Str date) (rows df) of
              None \<Rightarrow> Inl (DateNotAvailable date)
            | Some r \<Rightarrow>
                if r currency = NaN then Inl (DataNotAvailable currency date)
                else Inr \<lparr>result_currency = currency, result_date = date,
                          result_value = r currency\<rparr>)"
proof (cases "find (\<lambda>r. r ''Date'' = Str date) (rows df)")
  case None
  then have "\<forall>r \<in> set (rows df). r ''Date'' \<noteq> Str date"
    by (simp add: find_None_iff)
  with assms None show ?thesis by (simp add: get_value_absent_date)
next
  case (Some r)
  from find_Some_split [OF this] obtain pre post
    where "rows df = pre @ r # post" "\<forall>p \<in> set pre. p ''Date'' \<noteq> Str date" "r ''Date'' = Str date"
    by blast
  with assms Some show ?thesis by (simp add: get_value_first)
qed

lemma get_value_Inr_fields:
  assumes "get_value date currency df = Inr res"
  shows "result_currency res = currency \<and> result_date res = date \<and> result_value res \<noteq> NaN"
  using assms
  by (auto simp: get_value_def isna_def split: sum.splits list.splits if_splits)

lemma columns_dropna:
  "columns (dropna df) = filter (\<lambda>c. \<exists>r \<in> set (rows df). r c \<noteq> NaN) (columns df)"
  by (simp add: dropna_def isna_def list_ex_iff)

lemma rows_dropna: "rows (dropna df) = rows df"
  by (simp add: dropna_def)

section \<open>Facts about the extraction loop\<close>

lemma extract_file_first:
  "file_to_extract \<notin> fst ` set pre \<Longrightarrow>
   extract_file file_to_extract (pre @ (file_to_extract, file_contents) # post) = Inr file_contents"
  by (induction pre) auto

lemma extract_file_absent:
  "file_to_extract \<notin> fst ` set infos \<Longrightarrow>
   extract_file file_to_extract infos = Inl (FileNotFoundError file_to_extract)"
  by (induction infos) auto

section \<open>The download\<close>

text \<open>
  C6. Whatever the URL, when the request returns a response whose status code is not 200,
  \<open>get_file\<close> fails with the HTTP error carrying that code and yields no bytes; when the
  code is 200 it returns the whole response body, unchanged.
\<close>

theorem get_file_status:
  assumes "requests_get url = Inr resp"
  shows "get_file requests_get url =
           (if status_code resp \<noteq> 200 then Inl (HTTPError (status_code resp))
            else Inr (content resp))"
  using assms by (simp add: get_file_def make_request_def check_response_def)

text \<open>The two download tests: a 404 response, and a 200 response with ten bytes.\<close>

theorem get_file_status_witness:
  "get_file (\<lambda>_. Inr \<lparr>status_code = 404, content = map of_char ''0123456789''\<rparr>)
     ''http://whatever.com/file.zip'' = Inl (HTTPError 404) \<and>
   get_file (\<lambda>_. Inr \<lparr>status_code = 200, content = map of_char ''0123456789''\<rparr>)
     ''http://whatever.com/file.zip'' = Inr (map of_char ''0123456789'')"
  using get_file_status [of "\<lambda>_. Inr \<lparr>status_code = 404, content = map of_char ''0123456789''\<rparr>"
      "''http://whatever.com/file.zip''" "\<lparr>status_code = 404, content = map of_char ''0123456789''\<rparr>"]
    get_file_status [of "\<lambda>_. Inr \<lparr>status_code = 200, content = map of_char ''0123456789''\<rparr>"
      "''http://whatever.com/file.zip''" "\<lparr>status_code = 200, content = map of_char ''0123456789''\<rparr>"]
  by simp

section \<open>The extraction\<close>

text \<open>
  C5. \<open>extract_file\<close> walks the entries in stored order and returns the content of the
  first entry whose name is equal to the requested name, whatever follows it; when no
  entry has that name it fails with the file-not-found error, reached only after the last
  entry. Equality is exact: a lone member \<^verbatim>\<open>data.csv\<close> is not found under the name
  \<^verbatim>\<open>Data.csv\<close> nor under \<^verbatim>\<open>data.csv\<close> followed by a space.
\<close>

theorem extract_first_exact_match:
  "(file_to_extract \<notin> fst ` set pre \<longrightarrow>
      extract_file file_to_extract (pre @ (file_to_extract, file_contents) # post)
        = Inr file_contents) \<and>
   (file_to_extract \<notin> fst ` set infos \<longrightarrow>
      extract_file file_to_extract infos = Inl (FileNotFoundError file_to_extract)) \<and>
   extract_file ''Data.csv'' [(''data.csv'', file_contents)]
     = Inl (FileNotFoundError ''Data.csv'') \<and>
   extract_file ''data.csv '' [(''data.csv'', file_contents)]
     = Inl (FileNotFoundError ''data.csv '')"
  by (simp add: extract_file_first extract_file_absent)

text \<open>The archive of the test suite: its member is found under its own name only.\<close>

theorem extract_first_exact_match_witness:
  "extract_file ''filename.txt'' sample_zip = Inr (map of_char ''navigare necesse est'') \<and>
   extract_file ''Filename.txt'' sample_zip = Inl (FileNotFoundError ''Filename.txt'')"
  using extract_first_exact_match [of "''filename.txt''" "[]"
      "map of_char ''navigare necesse est''" "[]" sample_zip]
    extract_first_exact_match [of "''Filename.txt''" "[]" "[]" "[]" sample_zip]
  by (simp add: sample_zip_def)

section \<open>Building the table\<close>

text \<open>
  C3, as amended. \<open>dropna\<close> keeps the columns in their order and drops exactly those
  with no value in any row, the \<^verbatim>\<open>Date\<close> column among them when it is such a column;
  the rows are untouched. So for every date, a lookup that names a column which was
  null in every row fails with the currency-not-available error, as for a name that
  never was a column.
\<close>

theorem dropna_all_null_columns:
  "columns (dropna df) = filter (\<lambda>c. \<exists>r \<in> set (rows df). r c \<noteq> NaN) (columns df) \<and>
   rows (dropna df) = rows df \<and>
   ((\<forall>r \<in> set (rows df). r currency = NaN) \<longrightarrow>
      get_value date currency (dropna df) = Inl (CurrencyNotAvailable currency))"
  by (simp add: columns_dropna rows_dropna get_value_invalid_currency)

text \<open>The frame with the empty last column loses that column, and only it.\<close>

theorem dropna_all_null_columns_witness:
  "columns (dropna trailing_comma_frame) = [''Date'', ''USD''] \<and>
   get_value ''2023-11-20'' ''Unnamed: 2'' (dropna trailing_comma_frame) =
     Inl (CurrencyNotAvailable ''Unnamed: 2'')"
  using dropna_all_null_columns [of trailing_comma_frame "''Unnamed: 2''" "''2023-11-20''"]
  by (simp add: trailing_comma_frame_def mk_row_def)

text \<open>
  The claim as first stated exempts the date key: only columns other than \<^verbatim>\<open>Date\<close> would
  be dropped. A frame whose date fields are all empty loses its \<^verbatim>\<open>Date\<close> column.
\<close>

theorem dropna_date_key_counterexample:
  "columns blank_date_frame = [''Date'', ''USD''] \<and>
   columns (dropna blank_date_frame) = [''USD'']"
  by (simp add: blank_date_frame_def dropna_def isna_def mk_row_def)

section \<open>The lookup\<close>

text \<open>
  C4. For every frame and every date, a lookup whose currency is the label \<^verbatim>\<open>Date\<close>
  fails with the currency-not-available error, whether or not the frame has that column.
\<close>

theorem date_key_is_no_currency:
  "get_value date ''Date'' df = Inl (CurrencyNotAvailable ''Date'')"
  by (simp add: get_value_invalid_currency)

text \<open>In the frame of the test suite \<^verbatim>\<open>Date\<close> is a column, and still no currency.\<close>

theorem date_key_is_no_currency_witness:
  "''Date'' \<in> set (columns sample_dataframe) \<and>
   get_value ''2023-11-20'' ''Date'' sample_dataframe = Inl (CurrencyNotAvailable ''Date'')"
  using date_key_is_no_currency [of "''2023-11-20''" sample_dataframe]
  by (simp add: sample_dataframe_def)







text \<open>
  C8. When some row has the requested date, the lookup of a valid currency is decided by
  the first such row in row order, whatever the rows after it hold: it fails with the
  data-not-available error exactly when that row's cell is null, and returns that cell
  otherwise.
\<close>

theorem first_match_decides:
  assumes "currency \<in> set (columns df)" and "currency \<noteq> ''Date''"
    and "''Date'' \<in> set (columns df)"
    and "rows df = pre @ r # post"
    and "\<forall>p \<in> set pre. p ''Date'' \<noteq> Str date" and "r ''Date'' = Str date"
  shows "get_value date currency df =
           (if r currency = NaN then Inl (DataNotAvailable currency date)
            else Inr \<lparr>result_currency = currency, result_date = date,
                      result_value = r currency\<rparr>) \<and>
         (get_value date currency df = Inl (DataNotAvailable currency date)
            \<longleftrightarrow> r currency = NaN)"
  using get_value_first [OF assms] by simp

text \<open>Two rows share a date; the first has no rate, the second has one.\<close>

theorem first_match_decides_witness:
  "get_value ''2023-11-20'' ''USD'' duplicate_dates_frame =
     Inl (DataNotAvailable ''USD'' ''2023-11-20'')"
proof -
  let ?r0 = "mk_row [(''Date'', Str ''2023-11-21''), (''USD'', Str ''1.4142'')]"
  let ?r1 = "mk_row [(''Date'', Str ''2023-11-20''), (''USD'', NaN)]"
  let ?r2 = "mk_row [(''Date'', Str ''2023-11-20''), (''USD'', Str ''3.1415'')]"
  have c: "''USD'' \<in> set (columns duplicate_dates_frame)"
    and n: "''USD'' \<noteq> ''Date''"
    and d: "''Date'' \<in> set (columns duplicate_dates_frame)"
    by (simp_all add: duplicate_dates_frame_def)
  have s: "rows duplicate_dates_frame = [?r0] @ ?r1 # [?r2]"
    by (simp add: duplicate_dates_frame_def)
  have p: "\<forall>p \<in> set [?r0]. p ''Date'' \<noteq> Str ''2023-11-20''"
    by (simp add: mk_row_def)
  have m: "?r1 ''Date'' = Str ''2023-11-20''"
    by (simp add: mk_row_def)
  from first_match_decides [OF c n d s p m] show ?thesis
    by (simp add: mk_row_def)
qed



text \<open>
  C1, as amended. In the table built from a parsed frame by dropping its all-null
  columns, for a valid currency and a date whose first row holds a value for it, the
  lookup returns that cell exactly as the parsed frame stores it: neither the pruning
  nor the lookup converts it. It is the text of the source where the frame holds a
  string, and the number where the column was read as numeric.
\<close>

theorem lookup_returns_stored_cell:
  assumes "currency \<in> set (columns (dropna parsed))" and "currency \<noteq> ''Date''"
    and "''Date'' \<in> set (columns (dropna parsed))"
    and "find (\<lambda>r. r ''Date'' = Str date) (rows parsed) = Some r"
    and "r currency \<noteq> NaN"
  shows "get_value date currency (dropna parsed) =
           Inr \<lparr>result_currency = currency, result_date = date, result_value = r currency\<rparr>"
  using assms get_value_find [of currency "dropna parsed" date]
  by (simp add: rows_dropna)

text \<open>The first scenario of the test suite, whose frame holds strings.\<close>

theorem lookup_returns_stored_cell_witness:
  "get_value ''2023-11-20'' ''USD'' (dropna sample_dataframe) =
     Inr \<lparr>result_currency = ''USD'', result_date = ''2023-11-20'',
          result_value = Str ''3.1415''\<rparr>"
proof -
  let ?r = "mk_row [(''Date'', Str ''2023-11-20''), (''USD'', Str ''3.1415''),
                    (''SEK'', Str ''6.6260'')]"
  have c: "''USD'' \<in> set (columns (dropna sample_dataframe))"
    and d: "''Date'' \<in> set (columns (dropna sample_dataframe))"
    by (simp_all add: dropna_def isna_def sample_dataframe_def mk_row_def)
  have n: "''USD'' \<noteq> ''Date''" by simp
  have f: "find (\<lambda>r. r ''Date'' = Str ''2023-11-20'') (rows sample_dataframe) = Some ?r"
    by (simp add: sample_dataframe_def mk_row_def)
  have v: "?r ''USD'' \<noteq> NaN" by (simp add: mk_row_def)
  from lookup_returns_stored_cell [OF c n d f v] show ?thesis
    by (simp add: mk_row_def)
qed

text \<open>
  The claim as first stated has the value in string form, as the source text writes it.
  The field \<^verbatim>\<open>1.50\<close> of a numeric column is stored as the number 1.5, and the lookup
  returns that number.
\<close>

theorem lookup_numeric_counterexample:
  "get_value ''2023-11-20'' ''USD'' (dropna rates_frame) =
     Inr \<lparr>result_currency = ''USD'', result_date = ''2023-11-20'', result_value = Num (3 / 2)\<rparr>
   \<and> Num (3 / 2) \<noteq> Str ''1.50''"
  by (simp add: get_value_def validate_inputs_def select_values_def getitem_def eq_str_def
      loc_values_def rates_frame_def mk_row_def isna_def dropna_def)

section \<open>The endpoint\<close>

text \<open>
  C9, as amended. Whatever error the lookup raises, the handler answers with the same
  body, the object with the single key \<^verbatim>\<open>error\<close> and the fixed message, and status 404;
  the error takes no part in the response. A successful lookup whose value is a string
  or a float is answered with the object of the three keys \<^verbatim>\<open>currency\<close>, \<^verbatim>\<open>date\<close> and
  \<^verbatim>\<open>value\<close> and status 200.
\<close>

theorem endpoint_collapses_errors:
  "(get_value date currency df = Inl e \<longrightarrow>
      endpoint date currency df =
        (JObject [(''error'',
           JString ''Something wrong happend, please read the log for more information'')],
         404)) \<and>
   (get_value date currency df = Inr res \<longrightarrow> result_value res = Str s \<longrightarrow>
      endpoint date currency df =
        (JObject [(''currency'', JString currency), (''date'', JString date),
                  (''value'', JString s)], 200)) \<and>
   (get_value date currency df = Inr res \<longrightarrow> result_value res = Num x \<longrightarrow>
      endpoint date currency df =
        (JObject [(''currency'', JString currency), (''date'', JString date),
                  (''value'', JNumber x)], 200))"
  using get_value_Inr_fields [of date currency df res]
  by (auto simp: endpoint_def error_body_def jsonify_def)

text \<open>
  The three failing scenarios of the test suite get one response; the first scenario,
  a string, and the float of the numeric frame get their objects.
\<close>

theorem endpoint_collapses_errors_witness:
  "endpoint ''2023-11-20'' ''ASD'' sample_dataframe = endpoint ''2023-11-19'' ''USD'' sample_dataframe \<and>
   endpoint ''2023-11-19'' ''USD'' sample_dataframe = endpoint ''2023-11-22'' ''SEK'' sample_dataframe \<and>
   endpoint ''2023-11-22'' ''SEK'' sample_dataframe =
     (JObject [(''error'',
        JString ''Something wrong happend, please read the log for more information'')], 404) \<and>
   endpoint ''2023-11-20'' ''USD'' sample_dataframe =
     (JObject [(''currency'', JString ''USD''), (''date'', JString ''2023-11-20''),
               (''value'', JString ''3.1415'')], 200) \<and>
   endpoint ''2023-11-20'' ''USD'' rates_frame =
     (JObject [(''currency'', JString ''USD''), (''date'', JString ''2023-11-20''),
               (''value'', JNumber (3 / 2))], 200)"
proof -
  have a: "get_value ''2023-11-20'' ''ASD'' sample_dataframe = Inl (CurrencyNotAvailable ''ASD'')"
    by (simp add: get_value_invalid_currency sample_dataframe_def)
  have b: "get_value ''2023-11-19'' ''USD'' sample_dataframe = Inl (DateNotAvailable ''2023-11-19'')"
    by (rule get_value_absent_date) (simp_all add: sample_dataframe_def mk_row_def)
  have c: "get_value ''2023-11-22'' ''SEK'' sample_dataframe =
      Inl (DataNotAvailable ''SEK'' ''2023-11-22'')"
    by (simp add: get_value_find sample_dataframe_def mk_row_def)
  have d: "get_value ''2023-11-20'' ''USD'' sample_dataframe =
      Inr \<lparr>result_currency = ''USD'', result_date = ''2023-11-20'', result_value = Str ''3.1415''\<rparr>"
    by (simp add: get_value_find sample_dataframe_def mk_row_def)
  have f: "get_value ''2023-11-20'' ''USD'' rates_frame =
      Inr \<lparr>result_currency = ''USD'', result_date = ''2023-11-20'', result_value = Num (3 / 2)\<rparr>"
    by (simp add: get_value_find rates_frame_def mk_row_def)
  from endpoint_collapses_errors [of "''2023-11-20''" "''ASD''" sample_dataframe
        "CurrencyNotAvailable ''ASD''"] a
    endpoint_collapses_errors [of "''2023-11-19''" "''USD''" sample_dataframe
        "DateNotAvailable ''2023-11-19''"] b
    endpoint_collapses_errors [of "''2023-11-22''" "''SEK''" sample_dataframe
        "DataNotAvailable ''SEK'' ''2023-11-22''"] c
    endpoint_collapses_errors [of "''2023-11-20''" "''USD''" sample_dataframe _
      "\<lparr>result_currency = ''USD'', result_date = ''2023-11-20'', result_value = Str ''3.1415''\<rparr>"
      "''3.1415''"] d
    endpoint_collapses_errors [of "''2023-11-20''" "''USD''" rates_frame _
      "\<lparr>result_currency = ''USD'', result_date = ''2023-11-20'', result_value = Num (3 / 2)\<rparr>"
      _ "3 / 2"] f
  show ?thesis by simp
qed

text \<open>
  The claim as first stated answers every successful lookup with the three-key object
  and status 200. The lookup of the integer rate succeeds, \<^verbatim>\<open>jsonify\<close> raises on the
  \<^verbatim>\<open>int64\<close> value inside the \<^verbatim>\<open>try\<close>, and the answer is the error body with status 404.
\<close>

theorem endpoint_integer_counterexample:
  "get_value ''2023-11-20'' ''JPY'' (dropna integer_frame) =
     Inr \<lparr>result_currency = ''JPY'', result_date = ''2023-11-20'', result_value = Int64 150\<rparr> \<and>
   endpoint ''2023-11-20'' ''JPY'' (dropna integer_frame) =
     (JObject [(''error'',
        JString ''Something wrong happend, please read the log for more information'')], 404)"
  by (simp add: endpoint_def jsonify_def error_body_def get_value_def validate_inputs_def
      select_values_def getitem_def eq_str_def loc_values_def integer_frame_def mk_row_def
      isna_def dropna_def)

end
